theory Spec2Isabelle
  imports Complex_Main
begin

section \<open>Event based backtesting: the class BacktestBase\<close>

text \<open>
  The theory embeds \<^verbatim>\<open>backtest_base.py\<close>: the price series that \<^verbatim>\<open>get_data\<close> prepares and
  the ledger (cash, units, number of trades) that \<^verbatim>\<open>place_buy_order\<close>,
  \<^verbatim>\<open>place_sell_order\<close> and \<^verbatim>\<open>close_out\<close> update.

  \<^item> An instance of the class is a record with the attributes that \<^verbatim>\<open>__init__\<close> and
    \<^verbatim>\<open>get_data\<close> set. The attribute \<^verbatim>\<open>end\<close> is the field \<open>end_date\<close>.
  \<^item> A method that mutates the instance returns the instance it leaves behind, together
    with its outcome: \<open>Inl e\<close> when the exception \<open>e\<close> leaves the method, \<open>Inr v\<close> when it
    returns. An exception raised after an assignment leaves the assignment in place,
    as in Python.
  \<^item> Python is dynamically typed, and what an operator does depends on the types it
    meets. A number is a value of \<open>num\<close>: a Python \<^verbatim>\<open>int\<close> (unbounded), a Python \<^verbatim>\<open>float\<close>,
    a \<^verbatim>\<open>numpy.int64\<close> or a \<^verbatim>\<open>numpy.float64\<close>; \<open>arith\<close> is the arithmetic of Python
    and of numpy (version 2) on them. The cash and the costs are numbers of any of these
    types; the prices are what pandas read: \<^verbatim>\<open>float64\<close>, or \<^verbatim>\<open>int64\<close> when every close of
    the file is written as an integer.
  \<^item> A double is a value of \<open>npfloat\<close>: a real number, an infinity or NaN. Every
    floating-point operation rounds its exact result with a rounding function \<open>rnd\<close> that
    the methods take as their first argument: \<open>exact\<close> rounds nothing and never overflows,
    \<open>binary64\<close> rounds to the nearest double, ties to even, and overflows to an infinity.
    The sign of zero is not modelled.
  \<^item> Units are Python integers and bar indices are integers; a negative index counts
    from the end of the series.
  \<^item> The text that \<^verbatim>\<open>print\<close> writes is not modelled; the calls that a printing method
    makes, and the exceptions they raise, are. \<open>close_out\<close> returns the performance that
    it prints. \<^verbatim>\<open>plot_data\<close> does not touch the ledger and is left out.
  \<^item> A time stamp is a number of nanoseconds. \<^verbatim>\<open>start\<close> and \<^verbatim>\<open>end\<close> are date strings,
    as the class documents them, and a date is the number of its day; the first ten
    characters of a time stamp's text, which \<^verbatim>\<open>get_date_price\<close> returns, are the day of
    the time stamp. The file is taken to have a column \<^verbatim>\<open>close\<close> and an index column of
    dates that pandas parses.
\<close>

subsection \<open>Doubles\<close>

datatype npfloat = Finite real | PosInf | NegInf | NaN

type_synonym rounding = "real \<Rightarrow> npfloat"

definition exact :: rounding where
  "exact x = Finite x"



text \<open>The operations of IEEE 754 on doubles. A division by zero raises nothing in numpy:
  it gives an infinity or NaN.\<close>

definition is_negative :: "npfloat \<Rightarrow> bool" where
  "is_negative a = (case a of Finite x \<Rightarrow> x < 0 | NegInf \<Rightarrow> True | PosInf \<Rightarrow> False | NaN \<Rightarrow> False)"

definition fl_neg :: "npfloat \<Rightarrow> npfloat" where
  "fl_neg a = (case a of Finite x \<Rightarrow> Finite (- x) | PosInf \<Rightarrow> NegInf | NegInf \<Rightarrow> PosInf | NaN \<Rightarrow> NaN)"

fun fl_add :: "rounding \<Rightarrow> npfloat \<Rightarrow> npfloat \<Rightarrow> npfloat" where
  "fl_add rnd (Finite x) (Finite y) = rnd (x + y)"
| "fl_add rnd NaN b = NaN"
| "fl_add rnd a NaN = NaN"
| "fl_add rnd PosInf NegInf = NaN"
| "fl_add rnd NegInf PosInf = NaN"
| "fl_add rnd PosInf b = PosInf"
| "fl_add rnd a PosInf = PosInf"
| "fl_add rnd NegInf b = NegInf"
| "fl_add rnd a NegInf = NegInf"

definition fl_sub :: "rounding \<Rightarrow> npfloat \<Rightarrow> npfloat \<Rightarrow> npfloat" where
  "fl_sub rnd a b = fl_add rnd a (fl_neg b)"

definition fl_mul :: "rounding \<Rightarrow> npfloat \<Rightarrow> npfloat \<Rightarrow> npfloat" where
  "fl_mul rnd a b =
     (case (a, b) of
        (Finite x, Finite y) \<Rightarrow> rnd (x * y)
      | _ \<Rightarrow>
          if a = NaN \<or> b = NaN \<or> a = Finite 0 \<or> b = Finite 0 then NaN
          else if is_negative a = is_negative b then PosInf else NegInf)"

definition fl_div :: "rounding \<Rightarrow> npfloat \<Rightarrow> npfloat \<Rightarrow> npfloat" where
  "fl_div rnd a b =
     (case (a, b) of
        (Finite x, Finite y) \<Rightarrow>
          (if y = 0 then (if 0 < x then PosInf else if x < 0 then NegInf else NaN)
           else rnd (x / y))
      | (Finite x, PosInf) \<Rightarrow> Finite 0
      | (Finite x, NegInf) \<Rightarrow> Finite 0
      | (PosInf, Finite y) \<Rightarrow> (if y < 0 then NegInf else PosInf)
      | (NegInf, Finite y) \<Rightarrow> (if y < 0 then PosInf else NegInf)
      | _ \<Rightarrow> NaN)"


subsection \<open>Exceptions\<close>

datatype error =
    AttributeError
  | FileNotFoundError
  | IndexError
  | KeyError
  | OverflowError
  | TypeError
  | ValueError
  | ZeroDivisionError

definition and_then :: "error + 'a \<Rightarrow> ('a \<Rightarrow> error + 'b) \<Rightarrow> error + 'b" where
  "and_then r f = (case r of Inl e \<Rightarrow> Inl e | Inr x \<Rightarrow> f x)"

subsection \<open>Numbers and their arithmetic\<close>

datatype num = PyInt int | PyFloat npfloat | NpInt int | NpFloat npfloat

datatype binop = Add | Sub | Mul | TrueDiv

text \<open>A Python integer is converted to a double when it meets a float; the conversion
  raises \<^verbatim>\<open>OverflowError\<close> when the integer is too large.\<close>

definition float_of_int :: "rounding \<Rightarrow> int \<Rightarrow> error + npfloat" where
  "float_of_int rnd i =
     (case rnd (of_int i) of Finite x \<Rightarrow> Inr (Finite x) | _ \<Rightarrow> Inl OverflowError)"

definition to_float64 :: "rounding \<Rightarrow> num \<Rightarrow> error + npfloat" where
  "to_float64 rnd n =
     (case n of
        PyInt i \<Rightarrow> float_of_int rnd i
      | PyFloat x \<Rightarrow> Inr x
      | NpInt i \<Rightarrow> Inr (rnd (of_int i))
      | NpFloat x \<Rightarrow> Inr x)"

text \<open>A Python integer that meets a \<^verbatim>\<open>numpy.int64\<close> becomes one, and raises
  \<^verbatim>\<open>OverflowError\<close> when it does not fit; the result of the operation wraps around.\<close>

definition int64_range :: "int \<Rightarrow> bool" where
  "int64_range i = (- (2 ^ 63) \<le> i \<and> i < 2 ^ 63)"

definition wrap64 :: "int \<Rightarrow> int" where
  "wrap64 i = (i + 2 ^ 63) mod 2 ^ 64 - 2 ^ 63"

definition to_int64 :: "num \<Rightarrow> error + int" where
  "to_int64 n =
     (case n of
        PyInt i \<Rightarrow> (if int64_range i then Inr i else Inl OverflowError)
      | NpInt i \<Rightarrow> Inr i
      | PyFloat x \<Rightarrow> Inl TypeError
      | NpFloat x \<Rightarrow> Inl TypeError)"

text \<open>(\<open>arith\<close> converts no float with \<open>to_int64\<close>: an operation with a float is one of
  doubles.)\<close>

definition int_op :: "binop \<Rightarrow> int \<Rightarrow> int \<Rightarrow> int" where
  "int_op op i j = (case op of Add \<Rightarrow> i + j | Sub \<Rightarrow> i - j | Mul \<Rightarrow> i * j | TrueDiv \<Rightarrow> 0)"

definition float_op :: "binop \<Rightarrow> rounding \<Rightarrow> npfloat \<Rightarrow> npfloat \<Rightarrow> npfloat" where
  "float_op op rnd x y =
     (case op of
        Add \<Rightarrow> fl_add rnd x y
      | Sub \<Rightarrow> fl_sub rnd x y
      | Mul \<Rightarrow> fl_mul rnd x y
      | TrueDiv \<Rightarrow> fl_div rnd x y)"

definition is_py_float :: "num \<Rightarrow> bool" where
  "is_py_float n = (case n of PyFloat x \<Rightarrow> True | _ \<Rightarrow> False)"

definition is_np_int :: "num \<Rightarrow> bool" where
  "is_np_int n = (case n of NpInt i \<Rightarrow> True | _ \<Rightarrow> False)"

definition is_np_float :: "num \<Rightarrow> bool" where
  "is_np_float n = (case n of NpFloat x \<Rightarrow> True | _ \<Rightarrow> False)"

text \<open>Two Python numbers: integers are exact, and a division by zero raises.\<close>

definition python_arith :: "binop \<Rightarrow> rounding \<Rightarrow> num \<Rightarrow> num \<Rightarrow> error + num" where
  "python_arith op rnd a b =
     (case (a, b) of
        (PyInt i, PyInt j) \<Rightarrow>
          (if op = TrueDiv
           then (if j = 0 then Inl ZeroDivisionError
                 else (case rnd (of_int i / of_int j) of
                         Finite q \<Rightarrow> Inr (PyFloat (Finite q))
                       | _ \<Rightarrow> Inl OverflowError))
           else Inr (PyInt (int_op op i j)))
      | _ \<Rightarrow>
          and_then (to_float64 rnd a) (\<lambda>x.
          and_then (to_float64 rnd b) (\<lambda>y.
            if op = TrueDiv \<and> y = Finite 0 then Inl ZeroDivisionError
            else Inr (PyFloat (float_op op rnd x y)))))"

text \<open>\<open>a op b\<close>. A \<^verbatim>\<open>float64\<close> operand, or an \<^verbatim>\<open>int64\<close> with a Python float, makes the
  operation one of doubles; otherwise an \<^verbatim>\<open>int64\<close> operand makes it one of 64-bit
  integers, whose true division is the division of doubles.\<close>

definition arith :: "binop \<Rightarrow> rounding \<Rightarrow> num \<Rightarrow> num \<Rightarrow> error + num" where
  "arith op rnd a b =
     (if is_np_float a \<or> is_np_float b \<or> (is_np_int a \<and> is_py_float b)
         \<or> (is_py_float a \<and> is_np_int b)
      then and_then (to_float64 rnd a) (\<lambda>x.
           and_then (to_float64 rnd b) (\<lambda>y.
             Inr (NpFloat (float_op op rnd x y))))
      else if is_np_int a \<or> is_np_int b
      then and_then (to_int64 a) (\<lambda>i.
           and_then (to_int64 b) (\<lambda>j.
             Inr (if op = TrueDiv
                  then NpFloat (fl_div rnd (rnd (of_int i)) (rnd (of_int j)))
                  else NpInt (wrap64 (int_op op i j)))))
      else python_arith op rnd a b)"

text \<open>\<^verbatim>\<open>int(x)\<close> of a float drops the fraction (it rounds toward zero) and raises on an
  infinity and on NaN.\<close>

definition trunc_toward_zero :: "real \<Rightarrow> int" where
  "trunc_toward_zero x = (if 0 \<le> x then \<lfloor>x\<rfloor> else \<lceil>x\<rceil>)"

definition int_of_float :: "npfloat \<Rightarrow> error + int" where
  "int_of_float v =
     (case v of
        Finite x \<Rightarrow> Inr (trunc_toward_zero x)
      | PosInf \<Rightarrow> Inl OverflowError
      | NegInf \<Rightarrow> Inl OverflowError
      | NaN \<Rightarrow> Inl ValueError)"

definition py_int :: "num \<Rightarrow> error + int" where
  "py_int n =
     (case n of
        PyInt i \<Rightarrow> Inr i
      | NpInt i \<Rightarrow> Inr i
      | PyFloat x \<Rightarrow> int_of_float x
      | NpFloat x \<Rightarrow> int_of_float x)"

text \<open>The format \<^verbatim>\<open>.2f\<close> converts a Python integer to a float first.\<close>

definition format_2f :: "rounding \<Rightarrow> num \<Rightarrow> error + unit" where
  "format_2f rnd n =
     (case n of
        PyInt i \<Rightarrow> and_then (float_of_int rnd i) (\<lambda>x. Inr ())
      | _ \<Rightarrow> Inr ())"

subsection \<open>The price series and the instance\<close>

type_synonym timestamp = int

definition day_ticks :: int where
  "day_ticks = 86400000000000"

definition day_of :: "timestamp \<Rightarrow> int" where
  "day_of t = t div day_ticks"


text \<open>A bar of \<^verbatim>\<open>self.data\<close>: the index and the columns \<^verbatim>\<open>close\<close> and \<^verbatim>\<open>return\<close>.\<close>

record bar =
  stamp :: timestamp
  close :: num
  log_return :: npfloat

record BacktestBase =
  start :: int
  end_date :: int
  initial_amount :: num
  amount :: num
  ftc :: num
  ptc :: num
  units :: int
  position :: int
  trades :: nat
  verbose :: bool
  data :: "bar list"

type_synonym 'a outcome = "(error + 'a) \<times> BacktestBase"

text \<open>The names that an instance answers to: the attributes that \<^verbatim>\<open>__init__\<close> and
  \<^verbatim>\<open>get_data\<close> assign and the methods that the class defines. Reading any other name
  of \<^verbatim>\<open>self\<close> raises \<^verbatim>\<open>AttributeError\<close>.\<close>

definition attributes :: "string list" where
  "attributes =
     [''start'', ''end'', ''initial_amount'', ''amount'', ''ftc'', ''ptc'', ''units'',
      ''position'', ''trades'', ''verbose'', ''data'',
      ''__init__'', ''get_data'', ''plot_data'', ''get_date_price'', ''print_balance'',
      ''print_net_wealth'', ''place_buy_order'', ''place_sell_order'', ''close_out'']"

definition has_attribute :: "string \<Rightarrow> bool" where
  "has_attribute name = (name \<in> set attributes)"

subsection \<open>Loading the data\<close>









subsection \<open>Reading a bar and printing\<close>

text \<open>\<^verbatim>\<open>self.data.index[bar]\<close> and \<^verbatim>\<open>self.data.close.iloc[bar]\<close> raise \<^verbatim>\<open>IndexError\<close>
  outside the series.\<close>

definition valid_bar :: "BacktestBase \<Rightarrow> int \<Rightarrow> bool" where
  "valid_bar self b = (- int (length (data self)) \<le> b \<and> b < int (length (data self)))"

definition get_date_price :: "BacktestBase \<Rightarrow> int \<Rightarrow> error + (int \<times> num)" where
  "get_date_price self b =
     (let n = int (length (data self)); j = (if b < 0 then n + b else b)
      in if 0 \<le> j \<and> j < n
         then Inr (day_of (stamp (data self ! nat j)), close (data self ! nat j))
         else Inl IndexError)"

definition print_balance :: "rounding \<Rightarrow> BacktestBase \<Rightarrow> int \<Rightarrow> error + unit" where
  "print_balance rnd self b =
     (case get_date_price self b of
        Inl e \<Rightarrow> Inl e
      | Inr (d, price) \<Rightarrow> format_2f rnd (amount self))"

text \<open>\<^verbatim>\<open>print_net_wealth\<close> reads \<^verbatim>\<open>self.get_data_price\<close> in its first statement and
  \<^verbatim>\<open>self.net_wealth\<close> in its last.\<close>

definition print_net_wealth :: "rounding \<Rightarrow> BacktestBase \<Rightarrow> int \<Rightarrow> error + unit" where
  "print_net_wealth rnd self b =
     (if has_attribute ''get_data_price''
      then (case get_date_price self b of
              Inl e \<Rightarrow> Inl e
            | Inr (d, price) \<Rightarrow>
                and_then (arith Mul rnd (PyInt (units self)) price) (\<lambda>value.
                and_then (arith Add rnd value (amount self)) (\<lambda>net_wealth.
                  if has_attribute ''net_wealth'' then Inr () else Inl AttributeError)))
      else Inl AttributeError)"

subsection \<open>Orders\<close>

text \<open>\<^verbatim>\<open>if units is None: units = int(amount / price)\<close>. Dividing \<^verbatim>\<open>None\<close> raises
  \<^verbatim>\<open>TypeError\<close>.\<close>

definition order_units :: "rounding \<Rightarrow> int option \<Rightarrow> num option \<Rightarrow> num \<Rightarrow> error + int" where
  "order_units rnd units_arg amount_arg price =
     (case units_arg of
        Some u \<Rightarrow> Inr u
      | None \<Rightarrow>
          (case amount_arg of
             None \<Rightarrow> Inl TypeError
           | Some a \<Rightarrow> and_then (arith TrueDiv rnd a price) py_int))"

text \<open>The verbose branch of an order: a \<^verbatim>\<open>print\<close> of the price, then \<^verbatim>\<open>print_balance\<close>
  and \<^verbatim>\<open>print_net_wealth\<close>.\<close>

definition print_order :: "rounding \<Rightarrow> BacktestBase \<Rightarrow> int \<Rightarrow> num \<Rightarrow> error + unit" where
  "print_order rnd self b price =
     and_then (format_2f rnd price) (\<lambda>u.
     and_then (print_balance rnd self b) (\<lambda>u.
       print_net_wealth rnd self b))"

text \<open>\<^verbatim>\<open>(units * price) * (1 + self.ptc) + self.ftc\<close> and
  \<^verbatim>\<open>(units * price) * (1 - self.ptc) - self.ftc\<close>.\<close>

definition buy_cost :: "rounding \<Rightarrow> BacktestBase \<Rightarrow> int \<Rightarrow> num \<Rightarrow> error + num" where
  "buy_cost rnd self u price =
     and_then (arith Mul rnd (PyInt u) price) (\<lambda>value.
     and_then (arith Add rnd (PyInt 1) (ptc self)) (\<lambda>factor.
     and_then (arith Mul rnd value factor) (\<lambda>gross.
       arith Add rnd gross (ftc self))))"

definition sell_proceeds :: "rounding \<Rightarrow> BacktestBase \<Rightarrow> int \<Rightarrow> num \<Rightarrow> error + num" where
  "sell_proceeds rnd self u price =
     and_then (arith Mul rnd (PyInt u) price) (\<lambda>value.
     and_then (arith Sub rnd (PyInt 1) (ptc self)) (\<lambda>factor.
     and_then (arith Mul rnd value factor) (\<lambda>gross.
       arith Sub rnd gross (ftc self))))"

text \<open>An exception in the right-hand side of \<^verbatim>\<open>self.amount -= ...\<close> leaves the method
  before anything is assigned.\<close>

definition place_buy_order ::
  "rounding \<Rightarrow> BacktestBase \<Rightarrow> int \<Rightarrow> int option \<Rightarrow> num option \<Rightarrow> unit outcome" where
  "place_buy_order rnd self b units_arg amount_arg =
     (case get_date_price self b of
        Inl e \<Rightarrow> (Inl e, self)
      | Inr (d, price) \<Rightarrow>
          (case order_units rnd units_arg amount_arg price of
             Inl e \<Rightarrow> (Inl e, self)
           | Inr u \<Rightarrow>
               (case and_then (buy_cost rnd self u price) (arith Sub rnd (amount self)) of
                  Inl e \<Rightarrow> (Inl e, self)
                | Inr cash \<Rightarrow>
                    (let self' = self
                           \<lparr>amount := cash,
                            units := units self + u,
                            trades := trades self + 1\<rparr>
                     in (if verbose self' then print_order rnd self' b price else Inr (),
                         self')))))"

definition place_sell_order ::
  "rounding \<Rightarrow> BacktestBase \<Rightarrow> int \<Rightarrow> int option \<Rightarrow> num option \<Rightarrow> unit outcome" where
  "place_sell_order rnd self b units_arg amount_arg =
     (case get_date_price self b of
        Inl e \<Rightarrow> (Inl e, self)
      | Inr (d, price) \<Rightarrow>
          (case order_units rnd units_arg amount_arg price of
             Inl e \<Rightarrow> (Inl e, self)
           | Inr u \<Rightarrow>
               (case and_then (sell_proceeds rnd self u price) (arith Add rnd (amount self)) of
                  Inl e \<Rightarrow> (Inl e, self)
                | Inr cash \<Rightarrow>
                    (let self' = self
                           \<lparr>amount := cash,
                            units := units self - u,
                            trades := trades self + 1\<rparr>
                     in (if verbose self' then print_order rnd self' b price else Inr (),
                         self')))))"

text \<open>\<^verbatim>\<open>close_out\<close> prints the final balance, the performance \<^verbatim>\<open>perf\<close> and the number of
  trades, after it has updated the ledger; the performance is the value returned here.\<close>

definition performance :: "rounding \<Rightarrow> BacktestBase \<Rightarrow> error + num" where
  "performance rnd self =
     and_then (arith Sub rnd (amount self) (initial_amount self)) (\<lambda>gain.
     and_then (arith TrueDiv rnd gain (initial_amount self)) (\<lambda>ratio.
       arith Mul rnd ratio (PyInt 100)))"

definition close_out :: "rounding \<Rightarrow> BacktestBase \<Rightarrow> int \<Rightarrow> num outcome" where
  "close_out rnd self b =
     (case get_date_price self b of
        Inl e \<Rightarrow> (Inl e, self)
      | Inr (d, price) \<Rightarrow>
          (case and_then (arith Mul rnd (PyInt (units self)) price) (arith Add rnd (amount self)) of
             Inl e \<Rightarrow> (Inl e, self)
           | Inr cash \<Rightarrow>
               (let self' = self\<lparr>amount := cash, units := 0, trades := trades self + 1\<rparr>
                in (and_then (if verbose self' then format_2f rnd price else Inr ()) (\<lambda>u.
                    and_then (format_2f rnd (amount self')) (\<lambda>u.
                    and_then (performance rnd self') (\<lambda>perf.
                    and_then (format_2f rnd perf) (\<lambda>u. Inr perf)))),
                    self'))))"

subsection \<open>A run: orders in sequence\<close>

text \<open>The caller places one order after the other; an exception ends the run.\<close>

datatype order =
    Buy int "int option" "num option"
  | Sell int "int option" "num option"
  | CloseOut int

fun place :: "rounding \<Rightarrow> BacktestBase \<Rightarrow> order \<Rightarrow> unit outcome" where
  "place rnd self (Buy b units_arg amount_arg) = place_buy_order rnd self b units_arg amount_arg"
| "place rnd self (Sell b units_arg amount_arg) = place_sell_order rnd self b units_arg amount_arg"
| "place rnd self (CloseOut b) =
     (case close_out rnd self b of (Inl e, self') \<Rightarrow> (Inl e, self') | (Inr perf, self') \<Rightarrow> (Inr (), self'))"

fun run :: "rounding \<Rightarrow> BacktestBase \<Rightarrow> order list \<Rightarrow> unit outcome" where
  "run rnd self [] = (Inr (), self)"
| "run rnd self (x # xs) =
     (case place rnd self x of
        (Inl e, self') \<Rightarrow> (Inl e, self')
      | (Inr u, self') \<Rightarrow> run rnd self' xs)"

subsection \<open>Example data\<close>


definition example_bars :: "bar list" where
  "example_bars =
     [\<lparr>stamp = 2 * day_ticks, close = NpFloat (Finite 100), log_return = Finite (ln (10 / 9))\<rparr>,
      \<lparr>stamp = 3 * day_ticks, close = NpFloat (Finite 110), log_return = Finite (ln (11 / 10))\<rparr>]"

definition example_ledger :: BacktestBase where
  "example_ledger =
     \<lparr>start = 1, end_date = 3, initial_amount = PyInt 10000, amount = PyInt 10000,
      ftc = PyFloat (Finite 1), ptc = PyFloat (Finite (1 / 100)), units = 0, position = 0,
      trades = 0, verbose = False, data = example_bars\<rparr>"






text \<open>The configuration of an instance: what the constructor sets and no order is meant
  to touch.\<close>

definition same_configuration :: "BacktestBase \<Rightarrow> BacktestBase \<Rightarrow> bool" where
  "same_configuration self self' =
     (start self' = start self \<and> end_date self' = end_date self \<and>
      initial_amount self' = initial_amount self \<and> ftc self' = ftc self \<and>
      ptc self' = ptc self \<and> position self' = position self \<and>
      verbose self' = verbose self \<and> data self' = data self)"


section \<open>Properties\<close>

subsection \<open>Auxiliary facts\<close>

lemma and_then_simps [simp]:
  "and_then (Inl e) f = Inl e" "and_then (Inr x) f = f x"
  by (simp_all add: and_then_def)

lemmas arith_defs =
  arith_def python_arith_def to_float64_def to_int64_def float_of_int_def float_op_def
  int_op_def is_np_float_def is_np_int_def is_py_float_def fl_sub_def fl_neg_def fl_mul_def
  fl_div_def

lemma get_date_price_valid:
  "valid_bar self b \<longleftrightarrow> (\<exists>d price. get_date_price self b = Inr (d, price))"
  by (auto simp: valid_bar_def get_date_price_def Let_def)

lemma get_date_price_same_data:
  "data self' = data self \<Longrightarrow> get_date_price self' b = get_date_price self b"
  by (simp add: get_date_price_def Let_def)

lemma trunc_toward_zero_floor: "0 \<le> x \<Longrightarrow> trunc_toward_zero x = \<lfloor>x\<rfloor>"
  by (simp add: trunc_toward_zero_def)




lemma example_prices:
  "get_date_price example_ledger 0 = Inr (2, NpFloat (Finite 100))"
  "get_date_price example_ledger 1 = Inr (3, NpFloat (Finite 110))"
  "get_date_price example_ledger (- 1) = Inr (3, NpFloat (Finite 110))"
  "get_date_price example_ledger 2 = Inl IndexError"
  by (simp_all add: get_date_price_def example_ledger_def example_bars_def day_of_def
      day_ticks_def)

lemma example_ledger_fields:
  "amount example_ledger = PyInt 10000" "initial_amount example_ledger = PyInt 10000"
  "ftc example_ledger = PyFloat (Finite 1)" "ptc example_ledger = PyFloat (Finite (1 / 100))"
  "units example_ledger = 0" "trades example_ledger = 0" "verbose example_ledger = False"
  "data example_ledger = example_bars"
  by (simp_all add: example_ledger_def)


























subsection \<open>Net wealth\<close>

text \<open>
  C1. The net-wealth operation is \<^verbatim>\<open>print_net_wealth\<close>. For every ledger state and every
  bar index it raises \<^verbatim>\<open>AttributeError\<close>: the class has no method \<^verbatim>\<open>get_data_price\<close>
  (the method is \<^verbatim>\<open>get_date_price\<close>), so it never computes
  \<open>units * price + amount\<close>.
\<close>

theorem print_net_wealth_raises:
  "print_net_wealth rnd self b = Inl AttributeError"
  by (simp add: print_net_wealth_def has_attribute_def attributes_def)

subsection \<open>Buy orders\<close>




subsection \<open>Sell orders\<close>




subsection \<open>Closing out\<close>




subsection \<open>The worked example\<close>

text \<open>
  C5 (as amended). In exact arithmetic, starting from the initial cash 10000 with
  \<open>ftc = 1\<close> and \<open>ptc = 0.01\<close>, buying 10 units at the price 100 costs
  \<open>10 * 100 * 1.01 + 1 = 1011\<close> and leaves cash 8989 and 10 units held; closing out at the
  price 110 then yields cash \<open>8989 + 1100 = 10089\<close> and the performance
  \<open>(10089 - 10000) / 10000 * 100 = 0.89\<close>.
\<close>

theorem example_buy_close_out:
  "initial_amount example_ledger = PyInt 10000 \<and> amount example_ledger = PyInt 10000 \<and>
   ftc example_ledger = PyFloat (Finite 1) \<and> ptc example_ledger = PyFloat (Finite (1 / 100)) \<and>
   get_date_price example_ledger 0 = Inr (2, NpFloat (Finite 100)) \<and>
   get_date_price example_ledger 1 = Inr (3, NpFloat (Finite 110)) \<and>
   place_buy_order exact example_ledger 0 (Some 10) None =
     (Inr (), example_ledger\<lparr>amount := NpFloat (Finite 8989), units := 10, trades := 1\<rparr>) \<and>
   close_out exact (example_ledger\<lparr>amount := NpFloat (Finite 8989), units := 10, trades := 1\<rparr>) 1 =
     (Inr (NpFloat (Finite (89 / 100))),
      example_ledger\<lparr>amount := NpFloat (Finite 10089), units := 0, trades := 2\<rparr>)"
proof -
  let ?l = "example_ledger\<lparr>amount := NpFloat (Finite 8989), units := 10, trades := 1\<rparr>"
  have p: "get_date_price ?l 1 = Inr (3, NpFloat (Finite 110))"
    by (simp add: get_date_price_def example_ledger_def example_bars_def day_of_def
        day_ticks_def)
  have buy: "place_buy_order exact example_ledger 0 (Some 10) None = (Inr (), ?l)"
    by (simp add: place_buy_order_def example_prices order_units_def buy_cost_def arith_defs
        exact_def example_ledger_fields Let_def)
  have close: "close_out exact ?l 1 =
      (Inr (NpFloat (Finite (89 / 100))),
       example_ledger\<lparr>amount := NpFloat (Finite 10089), units := 0, trades := 2\<rparr>)"
    using p
    by (simp add: close_out_def performance_def arith_defs exact_def format_2f_def
        example_ledger_fields Let_def)
  from buy close show ?thesis
    by (simp add: example_ledger_fields example_prices)
qed

text \<open>The cash after the buy is 8989, not 8888.\<close>

theorem example_buy_counterexample:
  "amount (snd (place_buy_order exact example_ledger 0 (Some 10) None)) = NpFloat (Finite 8989) \<and>
   NpFloat (Finite 8989) \<noteq> NpFloat (Finite 8888)"
  by (simp add: place_buy_order_def example_prices order_units_def buy_cost_def arith_defs
      exact_def example_ledger_fields Let_def)

subsection \<open>The arguments of an order\<close>

text \<open>
  C6 (as amended). The class has no \<^verbatim>\<open>InvalidOrderError\<close> and does not check that exactly
  one of units and amount is supplied. At a bar of the series, a buy or sell call with
  neither raises \<^verbatim>\<open>TypeError\<close> and leaves the ledger unchanged; a call with both is the
  call with the units alone, the amount is ignored, and with \<open>verbose\<close> off it raises
  nothing when the computation of the new cash raises nothing.
\<close>

theorem order_arguments:
  assumes "get_date_price self b = Inr (d, price)"
  shows "place_buy_order rnd self b None None = (Inl TypeError, self) \<and>
         place_sell_order rnd self b None None = (Inl TypeError, self) \<and>
         place_buy_order rnd self b (Some u) (Some a) = place_buy_order rnd self b (Some u) None \<and>
         place_sell_order rnd self b (Some u) (Some a) = place_sell_order rnd self b (Some u) None \<and>
         (\<forall>cash. \<not> verbose self \<and>
            and_then (buy_cost rnd self u price) (arith Sub rnd (amount self)) = Inr cash \<longrightarrow>
            fst (place_buy_order rnd self b (Some u) (Some a)) = Inr ()) \<and>
         (\<forall>cash. \<not> verbose self \<and>
            and_then (sell_proceeds rnd self u price) (arith Add rnd (amount self)) = Inr cash \<longrightarrow>
            fst (place_sell_order rnd self b (Some u) (Some a)) = Inr ())"
  using assms
  by (simp add: place_buy_order_def place_sell_order_def order_units_def Let_def)

theorem order_arguments_witness:
  "get_date_price example_ledger 0 = Inr (2, NpFloat (Finite 100)) \<and> \<not> verbose example_ledger \<and>
   place_buy_order exact example_ledger 0 None None = (Inl TypeError, example_ledger) \<and>
   place_sell_order exact example_ledger 0 None None = (Inl TypeError, example_ledger) \<and>
   place_buy_order exact example_ledger 0 (Some 10) (Some (PyInt 500)) =
     place_buy_order exact example_ledger 0 (Some 10) None \<and>
   fst (place_buy_order exact example_ledger 0 (Some 10) (Some (PyInt 500))) = Inr ()"
proof -
  have p: "get_date_price example_ledger 0 = Inr (2, NpFloat (Finite 100))"
    by (simp add: example_prices)
  have v: "\<not> verbose example_ledger"
    by (simp add: example_ledger_fields)
  have c: "and_then (buy_cost exact example_ledger 10 (NpFloat (Finite 100)))
      (arith Sub exact (amount example_ledger)) = Inr (NpFloat (Finite 8989))"
    by (simp add: buy_cost_def arith_defs exact_def example_ledger_fields)
  from order_arguments [OF p, of exact 10 "PyInt 500"] p v c show ?thesis
    by blast
qed

text \<open>A buy with both units and an amount raises nothing and is executed.\<close>

theorem both_arguments_counterexample:
  "fst (place_buy_order exact example_ledger 0 (Some 10) (Some (PyInt 500))) = Inr () \<and>
   amount (snd (place_buy_order exact example_ledger 0 (Some 10) (Some (PyInt 500)))) =
     NpFloat (Finite 8989)"
  by (simp add: place_buy_order_def example_prices order_units_def buy_cost_def arith_defs
      exact_def example_ledger_fields Let_def)

subsection \<open>The frame of an order\<close>

text \<open>
  C10. Every buy, sell and close-out leaves the configuration unchanged:
  \<open>initial_amount\<close>, \<open>ftc\<close>, \<open>ptc\<close>, \<open>start\<close> and \<open>end\<close> (and \<open>position\<close>, \<open>verbose\<close> and the
  price series) are the same in the ledger that the call leaves behind, whatever the
  arguments and whether the call returns or raises.
\<close>

theorem orders_keep_configuration:
  "same_configuration self (snd (place_buy_order rnd self b units_arg amount_arg)) \<and>
   same_configuration self (snd (place_sell_order rnd self b units_arg amount_arg)) \<and>
   same_configuration self (snd (close_out rnd self b))"
  by (simp add: same_configuration_def place_buy_order_def place_sell_order_def close_out_def
      Let_def split: sum.split prod.split)

subsection \<open>Loading a date range\<close>










subsection \<open>Counting trades\<close>







lemma verbose_order_raises:
  assumes "get_date_price self b = Inr (d, price)" and "verbose self"
    and "format_2f rnd price = Inr ()"
  shows "and_then (buy_cost rnd self u price) (arith Sub rnd (amount self)) = Inr cash \<Longrightarrow>
         format_2f rnd cash = Inr () \<Longrightarrow>
         place_buy_order rnd self b (Some u) amount_arg =
           (Inl AttributeError,
            self\<lparr>amount := cash, units := units self + u, trades := trades self + 1\<rparr>)"
    and "and_then (sell_proceeds rnd self u price) (arith Add rnd (amount self)) = Inr cash \<Longrightarrow>
         format_2f rnd cash = Inr () \<Longrightarrow>
         place_sell_order rnd self b (Some u) amount_arg =
           (Inl AttributeError,
            self\<lparr>amount := cash, units := units self - u, trades := trades self + 1\<rparr>)"
proof -
  have p: "get_date_price self' b = Inr (d, price)" if "data self' = data self" for self'
    using assms(1) get_date_price_same_data [OF that, of b] by simp
  show "and_then (buy_cost rnd self u price) (arith Sub rnd (amount self)) = Inr cash \<Longrightarrow>
      format_2f rnd cash = Inr () \<Longrightarrow>
      place_buy_order rnd self b (Some u) amount_arg =
        (Inl AttributeError,
         self\<lparr>amount := cash, units := units self + u, trades := trades self + 1\<rparr>)"
    using assms
    by (simp add: place_buy_order_def order_units_def Let_def print_order_def print_balance_def
        print_net_wealth_def has_attribute_def attributes_def p)
  show "and_then (sell_proceeds rnd self u price) (arith Add rnd (amount self)) = Inr cash \<Longrightarrow>
      format_2f rnd cash = Inr () \<Longrightarrow>
      place_sell_order rnd self b (Some u) amount_arg =
        (Inl AttributeError,
         self\<lparr>amount := cash, units := units self - u, trades := trades self + 1\<rparr>)"
    using assms
    by (simp add: place_sell_order_def order_units_def Let_def print_order_def print_balance_def
        print_net_wealth_def has_attribute_def attributes_def p)
qed


lemma run_append:
  "run rnd self pre = (Inr (), s) \<Longrightarrow> run rnd self (pre @ rest) = run rnd s rest"
  by (induction pre arbitrary: self) (auto split: prod.splits sum.splits)









subsection \<open>Buying and selling back\<close>












end
